theory Spec2Isabelle
  imports Main
begin

section \<open>JavaScript values\<close>

text \<open>
  The values the front-end handles are the results of \<^verbatim>\<open>JSON.parse\<close>, the strings of
  its form fields, and \<^verbatim>\<open>undefined\<close> (what reading a missing property gives).
  Numbers are the integer-valued ones up to \<open>2 ^ 53\<close> in absolute value, which
  JavaScript holds exactly and prints digit by digit; an object is the list of its
  entries.
\<close>

datatype jsval =
    JUndefined
  | JNull
  | JBool bool
  | JNum int
  | JStr string
  | JArr "jsval list"
  | JObj "(string \<times> jsval) list"

text \<open>A thrown value: the error class and its \<^verbatim>\<open>message\<close>.\<close>

datatype js_error =
    Error string
  | TypeError string
  | SyntaxError string
  | ReferenceError string

fun error_message :: "js_error \<Rightarrow> string" where
  "error_message (Error m) = m"
| "error_message (TypeError m) = m"
| "error_message (SyntaxError m) = m"
| "error_message (ReferenceError m) = m"

text \<open>Truthiness, as tested by \<^verbatim>\<open>if (x)\<close>, \<^verbatim>\<open>!x\<close>, \<^verbatim>\<open>x || y\<close> and \<^verbatim>\<open>x && y\<close>.\<close>

fun truthy :: "jsval \<Rightarrow> bool" where
  "truthy JUndefined = False"
| "truthy JNull = False"
| "truthy (JBool b) = b"
| "truthy (JNum n) = (n \<noteq> 0)"
| "truthy (JStr s) = (s \<noteq> [])"
| "truthy (JArr xs) = True"
| "truthy (JObj kvs) = True"

fun nat_to_string :: "nat \<Rightarrow> string" where
  "nat_to_string n =
     (if n < 10 then [char_of (48 + n)]
      else nat_to_string (n div 10) @ [char_of (48 + n mod 10)])"

declare nat_to_string.simps [simp del]

text \<open>
  The string conversion of template literals, of \<^verbatim>\<open>new Error(x)\<close> and of
  \<^verbatim>\<open>localStorage.setItem\<close>. An array joins its elements with commas, \<^verbatim>\<open>null\<close> and
  \<^verbatim>\<open>undefined\<close> elements giving the empty string.
\<close>

fun ToString :: "jsval \<Rightarrow> string" and join_elems :: "jsval list \<Rightarrow> string" where
  "ToString JUndefined = ''undefined''"
| "ToString JNull = ''null''"
| "ToString (JBool b) = (if b then ''true'' else ''false'')"
| "ToString (JNum n) = (if n < 0 then ''-'' @ nat_to_string (nat (- n)) else nat_to_string (nat n))"
| "ToString (JStr s) = s"
| "ToString (JArr xs) = join_elems xs"
| "ToString (JObj kvs) = ''[object Object]''"
| "join_elems [] = ''''"
| "join_elems (v # vs) =
     (if v = JNull \<or> v = JUndefined then '''' else ToString v)
     @ (if vs = [] then '''' else '','' @ join_elems vs)"

text \<open>
  The number a value converts to in a comparison with a number (\<open>None\<close> is
  \<^verbatim>\<open>NaN\<close>): \<^verbatim>\<open>undefined\<close> and objects give \<^verbatim>\<open>NaN\<close>, \<^verbatim>\<open>null\<close> gives 0, an array
  converts through its string. Numbers being the integer-valued ones, a string converts
  when it is blank (0) or an optionally signed run of decimal digits; the other
  numeric spellings (fractions, exponents, hexadecimal) have no value here.
\<close>

definition is_digit :: "char \<Rightarrow> bool" where
  "is_digit c = (c \<in> set ''0123456789'')"

definition is_space :: "char \<Rightarrow> bool" where
  "is_space c = (c \<in> set [CHR '' '', CHR 0x09, CHR 0x0A, CHR 0x0B, CHR 0x0C, CHR 0x0D])"

definition decimal :: "string \<Rightarrow> nat option" where
  "decimal s =
     (if s \<noteq> [] \<and> list_all is_digit s
      then Some (foldl (\<lambda>a c. 10 * a + (of_char c - 48)) 0 s)
      else None)"

definition StringToNumber :: "string \<Rightarrow> int option" where
  "StringToNumber s =
     (case rev (dropWhile is_space (rev (dropWhile is_space s))) of
        [] \<Rightarrow> Some 0
      | c # r \<Rightarrow>
          (if c = CHR ''-'' then map_option (\<lambda>n. - int n) (decimal r)
           else if c = CHR ''+'' then map_option int (decimal r)
           else map_option int (decimal (c # r))))"

fun ToNumber :: "jsval \<Rightarrow> int option" where
  "ToNumber JUndefined = None"
| "ToNumber JNull = Some 0"
| "ToNumber (JBool b) = Some (if b then 1 else 0)"
| "ToNumber (JNum n) = Some n"
| "ToNumber (JStr s) = StringToNumber s"
| "ToNumber (JArr xs) = StringToNumber (join_elems xs)"
| "ToNumber (JObj kvs) = None"

text \<open>\<^verbatim>\<open>v <= k\<close>, \<^verbatim>\<open>v >= k\<close> and \<^verbatim>\<open>v > k\<close> for a number \<open>k\<close>; with \<^verbatim>\<open>NaN\<close> all are false.\<close>

definition less_equal :: "jsval \<Rightarrow> int \<Rightarrow> bool" where
  "less_equal v k = (case ToNumber v of None \<Rightarrow> False | Some n \<Rightarrow> n \<le> k)"

definition greater_equal :: "jsval \<Rightarrow> int \<Rightarrow> bool" where
  "greater_equal v k = (case ToNumber v of None \<Rightarrow> False | Some n \<Rightarrow> n \<ge> k)"

definition greater_than :: "jsval \<Rightarrow> int \<Rightarrow> bool" where
  "greater_than v k = (case ToNumber v of None \<Rightarrow> False | Some n \<Rightarrow> n > k)"

text \<open>
  Reading a property \<^verbatim>\<open>v.k\<close>. On \<^verbatim>\<open>null\<close> and \<^verbatim>\<open>undefined\<close> the read throws a
  TypeError; an object gives the entry or \<^verbatim>\<open>undefined\<close>; arrays and strings have a
  \<^verbatim>\<open>length\<close>; every other read gives \<^verbatim>\<open>undefined\<close>.
\<close>

definition cannot_read :: "string \<Rightarrow> string \<Rightarrow> string" where
  "cannot_read what k =
     ''Cannot read properties of '' @ what @ '' (reading '' @ [CHR 0x27] @ k @ [CHR 0x27] @ '')''"

fun get_prop :: "jsval \<Rightarrow> string \<Rightarrow> js_error + jsval" where
  "get_prop JUndefined k = Inl (TypeError (cannot_read ''undefined'' k))"
| "get_prop JNull k = Inl (TypeError (cannot_read ''null'' k))"
| "get_prop (JObj kvs) k = (case map_of kvs k of Some v \<Rightarrow> Inr v | None \<Rightarrow> Inr JUndefined)"
| "get_prop (JArr xs) k = (if k = ''length'' then Inr (JNum (int (length xs))) else Inr JUndefined)"
| "get_prop (JStr s) k = (if k = ''length'' then Inr (JNum (int (length s))) else Inr JUndefined)"
| "get_prop (JBool b) k = Inr JUndefined"
| "get_prop (JNum n) k = Inr JUndefined"

text \<open>
  Strict equality \<^verbatim>\<open>a === b\<close> of two values that come from different places (a list
  entry and the session): primitives are compared by value, arrays and objects by
  identity, so two separately parsed ones are never equal.
\<close>

fun strict_equals :: "jsval \<Rightarrow> jsval \<Rightarrow> bool" where
  "strict_equals (JArr xs) b = False"
| "strict_equals (JObj kvs) b = False"
| "strict_equals a b = (a = b)"

section \<open>The fetch helper\<close>

datatype body =
    NoBody
  | Json jsval
  | FormData "(string \<times> string) list"

record request =
  url :: string
  http_method :: string
  headers :: "(string \<times> string) list"
  req_body :: body

record response =
  status :: nat
  statusText :: string
  json :: "js_error + jsval"

text \<open>
  \<open>Json v\<close> as a request body is the text \<^verbatim>\<open>JSON.stringify(v)\<close>; \<open>FormData\<close> lists the
  appended fields (a file by its name). In a response, \<open>json\<close> is what
  \<^verbatim>\<open>await response.json()\<close> gives: the parsed body, or the error thrown for a body that
  is not JSON. The network is a function from the request handed to \<^verbatim>\<open>fetch\<close> to either
  the rejection or the response.
\<close>

type_synonym network = "request \<Rightarrow> js_error + response"

definition API_BASE_URL :: string where
  "API_BASE_URL = ''http://localhost:8000/api/v1''"

definition ok :: "response \<Rightarrow> bool" where
  "ok r = (200 \<le> status r \<and> status r \<le> 299)"

definition apiCall_request :: "string \<Rightarrow> string \<Rightarrow> body \<Rightarrow> jsval \<Rightarrow> request" where
  "apiCall_request endpoint method b token =
     \<lparr> url = API_BASE_URL @ endpoint,
       http_method = method,
       headers =
         (case b of FormData fd \<Rightarrow> [] | _ \<Rightarrow> [(''Content-Type'', ''application/json'')])
         @ (if truthy token then [(''Authorization'', ''Bearer '' @ ToString token)] else []),
       req_body =
         (case b of
            FormData fd \<Rightarrow> FormData fd
          | Json v \<Rightarrow> (if truthy v then Json v else NoBody)
          | NoBody \<Rightarrow> NoBody) \<rparr>"

definition apiCall_response :: "response \<Rightarrow> js_error + jsval" where
  "apiCall_response r =
     (if status r = 204 then Inr JNull
      else
        (case json r of
           Inl e \<Rightarrow> Inl e
         | Inr data \<Rightarrow>
             (if \<not> ok r then
                (case get_prop data ''detail'' of
                   Inl e \<Rightarrow> Inl e
                 | Inr d \<Rightarrow>
                     Inl (Error (if truthy d then ToString d
                                 else ''API Error: '' @ statusText r)))
              else Inr data)))"

definition apiCall :: "network \<Rightarrow> string \<Rightarrow> string \<Rightarrow> body \<Rightarrow> jsval \<Rightarrow> request \<times> (js_error + jsval)" where
  "apiCall net endpoint method b token =
     (let req = apiCall_request endpoint method b token
      in (req, case net req of Inl e \<Rightarrow> Inl e | Inr r \<Rightarrow> apiCall_response r))"

section \<open>Component state\<close>

text \<open>
  The banner message \<^verbatim>\<open>{ type, text }\<close> is owned by the root component and set by every
  view through the \<^verbatim>\<open>setMessage\<close> prop. \<open>sent\<close> records the requests handed to
  \<^verbatim>\<open>fetch\<close>, in order. A handler's result is the state once its promises have settled.
\<close>

record message =
  msg_type :: string
  msg_text :: string

definition error_msg :: "string \<Rightarrow> message" where
  "error_msg t = \<lparr> msg_type = ''error'', msg_text = t \<rparr>"

definition success_msg :: "string \<Rightarrow> message" where
  "success_msg t = \<lparr> msg_type = ''success'', msg_text = t \<rparr>"

record component =
  message :: message
  isLoading :: bool
  sent :: "request list"

record session = component +
  token :: jsval
  memberEmail :: jsval

record settings_state = session +
  members :: jsval
  newEmail :: string
  newPhone :: string

record dashboard_state = session +
  selectedFile :: "string option"
  billPreview :: jsval

record registration_state = component +
  flatNo :: string
  chatId :: string

record app_state = session +
  jwt_token :: "string option"
  currentPage :: string
  isAuthLoading :: bool

record login_state = app_state +
  email :: string
  otpMode :: bool
  otp :: string

text \<open>
  \<open>jwt_token\<close> is the \<^verbatim>\<open>localStorage\<close> slot of that name (\<open>None\<close> when absent).
  The login view runs inside the root component and writes its token and member email,
  so its state extends the root's.
\<close>

section \<open>Notification banner\<close>

text \<open>
  While the text is non-empty the banner's effect arms one timeout; the pair is its
  delay in milliseconds and the message its callback sets. \<open>banner_after d m\<close> is the
  message on display \<open>d\<close> milliseconds after \<open>m\<close> was set, nothing else happening.
\<close>

definition Notification_timeout :: "message \<Rightarrow> (nat \<times> message) option" where
  "Notification_timeout m =
     (if msg_text m = '''' then None
      else Some (5000, \<lparr> msg_type = '''', msg_text = '''' \<rparr>))"

definition banner_after :: "nat \<Rightarrow> message \<Rightarrow> message" where
  "banner_after d m =
     (case Notification_timeout m of
        None \<Rightarrow> m
      | Some (delay, m') \<Rightarrow> (if delay \<le> d then m' else m))"

section \<open>Login\<close>

definition handleRequestOtp :: "network \<Rightarrow> login_state \<Rightarrow> login_state" where
  "handleRequestOtp net s =
     (if email s = '''' then
        s\<lparr> message := error_msg ''Please enter your committee email address.'' \<rparr>
      else
        (let s1 = s\<lparr> isLoading := True \<rparr>;
             (req, res) = apiCall net ''/auth/otp/request'' ''POST''
                            (Json (JObj [(''email'', JStr (email s))])) JNull;
             s2 = s1\<lparr> sent := sent s1 @ [req] \<rparr>;
             s3 = (case res of
                     Inr data \<Rightarrow>
                       s2\<lparr> otpMode := True,
                           message := success_msg (''OTP request sent! Check your email: '' @ email s) \<rparr>
                   | Inl e \<Rightarrow> s2\<lparr> message := error_msg (error_message e) \<rparr>)
         in s3\<lparr> isLoading := False \<rparr>))"

definition handleVerifyOtp :: "network \<Rightarrow> login_state \<Rightarrow> login_state" where
  "handleVerifyOtp net s =
     (if length (otp s) \<noteq> 6 then
        s\<lparr> message := error_msg ''Please enter the 6-digit OTP.'' \<rparr>
      else
        (let s1 = s\<lparr> isLoading := True \<rparr>;
             (req, res) = apiCall net ''/auth/otp/verify'' ''POST''
                            (Json (JObj [(''email'', JStr (email s)), (''otp'', JStr (otp s))])) JNull;
             s2 = s1\<lparr> sent := sent s1 @ [req] \<rparr>;
             s3 = (case res of
                     Inr data \<Rightarrow>
                       (case get_prop data ''access_token'' of
                          Inr tok \<Rightarrow>
                            s2\<lparr> jwt_token := Some (ToString tok),
                                token := tok,
                                memberEmail := JStr (email s),
                                message := success_msg ''Access granted. Redirecting to Dashboard...'' \<rparr>
                        | Inl e \<Rightarrow> s2\<lparr> message := error_msg (error_message e) \<rparr>)
                   | Inl e \<Rightarrow> s2\<lparr> message := error_msg (error_message e) \<rparr>)
         in s3\<lparr> isLoading := False \<rparr>))"

text \<open>
  The code field: \<^verbatim>\<open>onChange\<close> stores the typed value with every character outside
  \<^verbatim>\<open>0-9\<close> removed. The field carries \<^verbatim>\<open>maxLength={6}\<close>, which bounds the value the
  browser reports.
\<close>

definition otp_onChange :: "string \<Rightarrow> login_state \<Rightarrow> login_state" where
  "otp_onChange v s = s\<lparr> otp := filter is_digit v \<rparr>"

definition email_onChange :: "string \<Rightarrow> login_state \<Rightarrow> login_state" where
  "email_onChange v s = s\<lparr> email := v \<rparr>"

section \<open>Committee management\<close>

definition fetchMembers :: "network \<Rightarrow> settings_state \<Rightarrow> settings_state" where
  "fetchMembers net s =
     (let s1 = s\<lparr> isLoading := True \<rparr>;
          (req, res) = apiCall net ''/auth/members'' ''GET'' NoBody (token s);
          s2 = s1\<lparr> sent := sent s1 @ [req] \<rparr>;
          s3 = (case res of
                  Inr data \<Rightarrow> s2\<lparr> members := data \<rparr>
                | Inl e \<Rightarrow>
                    s2\<lparr> message := error_msg (''Failed to load committee members: '' @ error_message e) \<rparr>)
      in s3\<lparr> isLoading := False \<rparr>)"

text \<open>
  \<^verbatim>\<open>fetchMembers()\<close> is started without \<^verbatim>\<open>await\<close>: its request goes out at once, the
  caller's \<^verbatim>\<open>finally\<close> runs, and the list arrives afterwards. The settled state is
  that of \<open>fetchMembers\<close>.
\<close>

definition handleAddMember :: "network \<Rightarrow> settings_state \<Rightarrow> settings_state" where
  "handleAddMember net s =
     (if newEmail s = '''' then
        s\<lparr> message := error_msg ''Email is required.'' \<rparr>
      else
        (let s1 = s\<lparr> isLoading := True \<rparr>;
             (req, res) = apiCall net ''/auth/members'' ''POST''
                            (Json (JObj [(''email'', JStr (newEmail s)),
                                         (''phone_number'',
                                          if newPhone s \<noteq> '''' then JStr (newPhone s) else JNull)]))
                            (token s);
             s2 = s1\<lparr> sent := sent s1 @ [req] \<rparr>
         in (case res of
               Inr data \<Rightarrow>
                 fetchMembers net
                   (s2\<lparr> message := success_msg (''Member '' @ newEmail s @ '' added successfully.''),
                       newEmail := '''',
                       newPhone := '''' \<rparr>)
             | Inl e \<Rightarrow>
                 s2\<lparr> message := error_msg (''Failed to add member: '' @ error_message e),
                     isLoading := False \<rparr>)))"

text \<open>The request part of the removal handler, after its guards and the confirmation.\<close>

definition removeMember_request :: "network \<Rightarrow> jsval \<Rightarrow> jsval \<Rightarrow> settings_state \<Rightarrow> settings_state" where
  "removeMember_request net memberId memberEmail' s =
     (let s1 = s\<lparr> isLoading := True \<rparr>;
          (req, res) = apiCall net (''/auth/members/'' @ ToString memberId) ''DELETE'' NoBody (token s);
          s2 = s1\<lparr> sent := sent s1 @ [req] \<rparr>
      in (case res of
            Inr data \<Rightarrow>
              fetchMembers net
                (s2\<lparr> message := success_msg (ToString memberEmail' @ '' removed successfully.'') \<rparr>)
          | Inl e \<Rightarrow>
              s2\<lparr> message := error_msg (''Failed to remove member: '' @ error_message e),
                  isLoading := False \<rparr>))"

text \<open>
  The handler's second parameter is named \<^verbatim>\<open>memberEmail\<close> like the component's prop and
  hides it: the second guard compares the parameter with itself. \<open>confirm\<close> is the
  user's answer to \<^verbatim>\<open>window.confirm\<close>. Reading \<^verbatim>\<open>members.length\<close> of \<^verbatim>\<open>null\<close>
  throws before any state is set: the state stays as it is.
\<close>

definition handleRemoveMember :: "network \<Rightarrow> bool \<Rightarrow> jsval \<Rightarrow> jsval \<Rightarrow> settings_state \<Rightarrow> settings_state" where
  "handleRemoveMember net confirm memberId memberEmail' s =
     (case get_prop (members s) ''length'' of
        Inl e \<Rightarrow> s
      | Inr n \<Rightarrow>
          (if less_equal n 1 then
             s\<lparr> message := error_msg ''Cannot remove: A minimum of 1 member is required.'' \<rparr>
           else if memberEmail' = memberEmail' then
             s\<lparr> message := error_msg ''Cannot remove your own account.'' \<rparr>
           else if \<not> confirm then s
           else removeMember_request net memberId memberEmail' s))"

text \<open>
  The two guards of the JSX, as written. Line 277 adds the remove button to a list entry
  when the list is drawn (not loading, \<open>members\<close> an array holding the entry), it has
  more than one entry, and the entry's email is not the session's; the button runs the
  handler on the entry's \<^verbatim>\<open>id\<close> and \<^verbatim>\<open>email\<close>. Line 316 disables the add button while
  loading, at five members, or with an empty email field.
\<close>

definition remove_shown :: "settings_state \<Rightarrow> jsval \<Rightarrow> bool" where
  "remove_shown s member =
     (case members s of
        JArr ms \<Rightarrow>
          \<not> isLoading s \<and> member \<in> set ms \<and> greater_than (JNum (int (length ms))) 1
          \<and> (case get_prop member ''email'' of
                Inr e \<Rightarrow> \<not> strict_equals e (memberEmail s)
              | Inl err \<Rightarrow> False)
      | _ \<Rightarrow> False)"

definition add_disabled :: "settings_state \<Rightarrow> js_error + bool" where
  "add_disabled s =
     (if isLoading s then Inr True
      else
        (case get_prop (members s) ''length'' of
           Inl e \<Rightarrow> Inl e
         | Inr n \<Rightarrow> Inr (greater_equal n 5 \<or> newEmail s = '''')))"

text \<open>
  Rendering the committee view. The JSX of lines 253 to 324 is evaluated top down and
  the first expression that throws ends the render: the read of \<^verbatim>\<open>members.length\<close>
  in the heading (on \<^verbatim>\<open>null\<close>); when not loading, \<^verbatim>\<open>members.map\<close> (only an array has
  it) and, inside it, the first read on an entry that is \<^verbatim>\<open>null\<close>; and last the
  \<^verbatim>\<open>Plus\<close> icon inside the add button, a name the file uses but never imports. The
  component function therefore never returns: the result is the error it throws.
\<close>

definition members_map :: "jsval \<Rightarrow> js_error option" where
  "members_map ms =
     (case ms of
        JArr xs \<Rightarrow>
          (if JNull \<in> set xs then Some (TypeError (cannot_read ''null'' ''id'')) else None)
      | _ \<Rightarrow> Some (TypeError ''members.map is not a function''))"

definition SettingsComponent_render :: "settings_state \<Rightarrow> js_error" where
  "SettingsComponent_render s =
     (case get_prop (members s) ''length'' of
        Inl e \<Rightarrow> e
      | Inr n \<Rightarrow>
          (case (if isLoading s then None else members_map (members s)) of
             Some e \<Rightarrow> e
           | None \<Rightarrow> ReferenceError ''Plus is not defined''))"

section \<open>Bill upload\<close>

definition handleGenerateBills :: "network \<Rightarrow> dashboard_state \<Rightarrow> dashboard_state" where
  "handleGenerateBills net s =
     (case selectedFile s of
        None \<Rightarrow> s\<lparr> message := error_msg ''Please select an Excel file first.'' \<rparr>
      | Some f \<Rightarrow>
          (let s1 = s\<lparr> isLoading := True \<rparr>;
               (req, res) = apiCall net ''/bill/generate'' ''POST'' (FormData [(''file'', f)]) (token s);
               s2 = s1\<lparr> sent := sent s1 @ [req] \<rparr>;
               s3 = (case res of
                       Inr data \<Rightarrow>
                         (let s' = s2\<lparr> billPreview := data \<rparr>
                          in (case get_prop data ''notifications_ready'' of
                                Inr n \<Rightarrow>
                                  s'\<lparr> message := success_msg
                                         (''Processing complete. '' @ ToString n
                                          @ '' notifications sent via Telegram in background.''),
                                      selectedFile := None \<rparr>
                              | Inl e \<Rightarrow> s'\<lparr> message := error_msg (error_message e) \<rparr>))
                     | Inl e \<Rightarrow> s2\<lparr> message := error_msg (error_message e) \<rparr>)
           in s3\<lparr> isLoading := False \<rparr>))"

section \<open>Telegram registration\<close>

definition handleRegister :: "network \<Rightarrow> registration_state \<Rightarrow> registration_state" where
  "handleRegister net s =
     (if flatNo s = '''' \<or> chatId s = '''' then
        s\<lparr> message := error_msg ''Flat No and Telegram Chat ID are required.'' \<rparr>
      else
        (let s1 = s\<lparr> isLoading := True \<rparr>;
             (req, res) = apiCall net ''/bill/telegram/register'' ''POST''
                            (Json (JObj [(''flat_no'', JStr (flatNo s)),
                                         (''telegram_chat_id'', JStr (chatId s))])) JNull;
             s2 = s1\<lparr> sent := sent s1 @ [req] \<rparr>;
             s3 = (case res of
                     Inr data \<Rightarrow>
                       s2\<lparr> message := success_msg
                              (''Success! Flat '' @ flatNo s
                               @ '' is now linked to receive bills via Telegram.''),
                           flatNo := '''',
                           chatId := '''' \<rparr>
                   | Inl e \<Rightarrow>
                       s2\<lparr> message := error_msg
                              (''Registration failed: '' @ error_message e
                               @ ''. Ensure your Flat No is correct.'') \<rparr>)
         in s3\<lparr> isLoading := False \<rparr>))"

section \<open>Root component\<close>

datatype view = LoadingScreen | LoginView | DashboardView | SettingsView | RegistrationView

text \<open>The state of the first render, given the content of the storage slot.\<close>

definition App_init :: "string option \<Rightarrow> app_state" where
  "App_init stored =
     \<lparr> message = \<lparr> msg_type = '''', msg_text = '''' \<rparr>,
       isLoading = False,
       sent = [],
       token = (case stored of Some t \<Rightarrow> JStr t | None \<Rightarrow> JNull),
       memberEmail = JStr '''',
       jwt_token = stored,
       currentPage = ''login'',
       isAuthLoading = True \<rparr>"

text \<open>
  The effect that checks the token on load. A throw inside the \<^verbatim>\<open>then\<close> callback
  (reading \<^verbatim>\<open>email\<close> of a \<^verbatim>\<open>null\<close> result) is handled by the \<^verbatim>\<open>catch\<close> like a failed
  call.
\<close>

definition checkToken :: "network \<Rightarrow> ('a app_state_scheme) \<Rightarrow> ('a app_state_scheme)" where
  "checkToken net s =
     (case jwt_token s of
        None \<Rightarrow> s\<lparr> isAuthLoading := False \<rparr>
      | Some storedToken \<Rightarrow>
          (if storedToken = '''' then s\<lparr> isAuthLoading := False \<rparr>
           else
             (let (req, res) = apiCall net ''/auth/me'' ''GET'' NoBody (JStr storedToken);
                  s1 = s\<lparr> sent := sent s @ [req] \<rparr>;
                  s2 = (case res of
                          Inr member \<Rightarrow>
                            (let s' = s1\<lparr> token := JStr storedToken \<rparr>
                             in (case get_prop member ''email'' of
                                   Inr e \<Rightarrow> s'\<lparr> memberEmail := e, currentPage := ''dashboard'' \<rparr>
                                 | Inl err \<Rightarrow> s'\<lparr> jwt_token := None, token := JNull \<rparr>))
                        | Inl err \<Rightarrow> s1\<lparr> jwt_token := None, token := JNull \<rparr>)
              in s2\<lparr> isAuthLoading := False \<rparr>)))"

text \<open>The effect that sets the page from the token and the member email.\<close>

definition defaultPage :: "('a app_state_scheme) \<Rightarrow> ('a app_state_scheme)" where
  "defaultPage s =
     (if \<not> isAuthLoading s then
        (if truthy (token s) \<and> truthy (memberEmail s)
         then s\<lparr> currentPage := ''dashboard'' \<rparr>
         else s\<lparr> currentPage := ''login'' \<rparr>)
      else s)"

definition renderContent :: "('a app_state_scheme) \<Rightarrow> view" where
  "renderContent s =
     (if isAuthLoading s then LoadingScreen
      else if \<not> truthy (token s) \<or> \<not> truthy (memberEmail s) then LoginView
      else if currentPage s = ''dashboard'' then DashboardView
      else if currentPage s = ''settings'' then SettingsView
      else if currentPage s = ''register'' then RegistrationView
      else DashboardView)"

text \<open>
  Rendering the root component (lines 628 to 664). The header comes first: with a truthy
  token it holds the logout button and its \<^verbatim>\<open>LogOut\<close> icon, a name the file uses but
  never imports, so the render throws there. Otherwise \<^verbatim>\<open>renderContent()\<close> gives the
  view.
\<close>

definition App_render :: "('a app_state_scheme) \<Rightarrow> js_error + view" where
  "App_render s =
     (if truthy (token s) then Inl (ReferenceError ''LogOut is not defined'')
      else Inr (renderContent s))"

text \<open>
  A component tree is mounted with its state, or was unmounted by the error a render
  threw (there is no error boundary), with the state it had then. After a state change
  the root renders again; only a render that returns is committed and followed by the
  page effect.
\<close>

datatype 's tree = Mounted 's | Unmounted js_error 's

fun tree_state :: "'s tree \<Rightarrow> 's" where
  "tree_state (Mounted s) = s"
| "tree_state (Unmounted e s) = s"

definition App_commit :: "('a app_state_scheme) \<Rightarrow> ('a app_state_scheme) tree" where
  "App_commit s =
     (case App_render s of
        Inl e \<Rightarrow> Unmounted e s
      | Inr v \<Rightarrow> Mounted (defaultPage s))"

text \<open>
  Startup: the first render; when it returns, the token check runs, and the root renders
  again with what it set.
\<close>

definition App_start :: "network \<Rightarrow> string option \<Rightarrow> app_state tree" where
  "App_start net stored =
     (case App_render (App_init stored) of
        Inl e \<Rightarrow> Unmounted e (App_init stored)
      | Inr v \<Rightarrow> App_commit (checkToken net (App_init stored)))"

text \<open>The login view as first shown: the root state it runs in, empty fields.\<close>

definition Login_init :: "app_state \<Rightarrow> login_state" where
  "Login_init a = app_state.extend a (login_state.fields '''' False '''')"

section \<open>Committee view over time\<close>

text \<open>
  The committee view starts with an empty list and loads it on mount. Afterwards the two
  fields change and the handlers run; the network may answer differently at each event.
  The events are applied to every state and without the guards of the controls, so the
  runs of the view are among those of \<open>settings_run\<close>.
\<close>

definition Settings_init :: "jsval \<Rightarrow> jsval \<Rightarrow> message \<Rightarrow> settings_state" where
  "Settings_init tok em msg =
     \<lparr> message = msg, isLoading = False, sent = [], token = tok, memberEmail = em,
       members = JArr [], newEmail = '''', newPhone = '''' \<rparr>"

datatype settings_event =
    Mount
  | NewEmailChange string
  | NewPhoneChange string
  | AddMember
  | RemoveMember bool jsval jsval

fun settings_step :: "settings_state \<Rightarrow> network \<times> settings_event \<Rightarrow> settings_state" where
  "settings_step s (net, Mount) = fetchMembers net s"
| "settings_step s (net, NewEmailChange v) = s\<lparr> newEmail := v \<rparr>"
| "settings_step s (net, NewPhoneChange v) = s\<lparr> newPhone := v \<rparr>"
| "settings_step s (net, AddMember) = handleAddMember net s"
| "settings_step s (net, RemoveMember confirm memberId memberEmail') =
     handleRemoveMember net confirm memberId memberEmail' s"

definition settings_run :: "settings_state \<Rightarrow> (network \<times> settings_event) list \<Rightarrow> settings_state" where
  "settings_run s evs = foldl settings_step s evs"

text \<open>What a \<^verbatim>\<open>GET /auth/members\<close> with the session's token returns on a network.\<close>

definition GET_members :: "network \<Rightarrow> jsval \<Rightarrow> js_error + jsval" where
  "GET_members net tok = snd (apiCall net ''/auth/members'' ''GET'' NoBody tok)"

section \<open>Example networks and states\<close>

text \<open>A network that is down, one that answers every request alike, and a small backend.\<close>

definition net_down :: network where
  "net_down req = Inl (TypeError ''Failed to fetch'')"

definition net_always :: "response \<Rightarrow> network" where
  "net_always r req = Inr r"

definition alice :: jsval where
  "alice = JObj [(''id'', JNum 1), (''email'', JStr ''admin@example.com''), (''phone_number'', JNull)]"

definition bob :: jsval where
  "bob = JObj [(''id'', JNum 2), (''email'', JStr ''bob@example.com''), (''phone_number'', JStr ''555'')]"

definition backend :: network where
  "backend req =
     (if url req = API_BASE_URL @ ''/auth/otp/request'' then
        Inr \<lparr> status = 200, statusText = ''OK'', json = Inr (JObj [(''message'', JStr ''sent'')]) \<rparr>
      else if url req = API_BASE_URL @ ''/auth/otp/verify'' then
        Inr \<lparr> status = 200, statusText = ''OK'', json = Inr (JObj [(''access_token'', JStr ''tok123'')]) \<rparr>
      else if url req = API_BASE_URL @ ''/auth/me'' then
        Inr \<lparr> status = 200, statusText = ''OK'', json = Inr (JObj [(''email'', JStr ''admin@example.com'')]) \<rparr>
      else if url req = API_BASE_URL @ ''/auth/members'' \<and> http_method req = ''GET'' then
        Inr \<lparr> status = 200, statusText = ''OK'', json = Inr (JArr [alice, bob]) \<rparr>
      else if url req = API_BASE_URL @ ''/auth/members'' then
        Inr \<lparr> status = 201, statusText = ''Created'', json = Inr bob \<rparr>
      else if url req = API_BASE_URL @ ''/bill/telegram/register'' then
        Inr \<lparr> status = 200, statusText = ''OK'', json = Inr (JObj [(''status'', JStr ''linked'')]) \<rparr>
      else Inr \<lparr> status = 204, statusText = ''No Content'', json = Inl (SyntaxError ''Unexpected end of JSON input'') \<rparr>)"

definition committee :: settings_state where
  "committee =
     \<lparr> message = \<lparr> msg_type = '''', msg_text = '''' \<rparr>, isLoading = False, sent = [],
       token = JStr ''tok123'', memberEmail = JStr ''admin@example.com'',
       members = JArr [alice, bob], newEmail = ''carol@example.com'', newPhone = '''' \<rparr>"

definition registration :: registration_state where
  "registration =
     \<lparr> message = \<lparr> msg_type = '''', msg_text = '''' \<rparr>, isLoading = False, sent = [],
       flatNo = ''A-101'', chatId = ''123456789'' \<rparr>"

section \<open>The fetch helper: results\<close>

text \<open>
  Claim C2, as stated, says that every response outside the 2xx range makes the call throw
  an error whose message is the body's \<^verbatim>\<open>detail\<close>. A 500 response whose body is the
  empty object has no \<^verbatim>\<open>detail\<close>, and the call throws the fallback message instead.
\<close>

theorem apiCall_detail_counterexample:
  "\<not> ok \<lparr> status = 500, statusText = ''Internal Server Error'', json = Inr (JObj []) \<rparr>
   \<and> get_prop (JObj []) ''detail'' = Inr JUndefined
   \<and> snd (apiCall (net_always \<lparr> status = 500, statusText = ''Internal Server Error'',
                               json = Inr (JObj []) \<rparr>)
              ''/auth/me'' ''GET'' NoBody JNull)
       = Inl (Error ''API Error: Internal Server Error'')"
  by (simp add: ok_def apiCall_def apiCall_response_def net_always_def Let_def)

text \<open>
  Claim C2, amended. For the response to a request: status 204 gives \<^verbatim>\<open>null\<close>; for
  any other status the body is parsed first and a parse failure is what the call throws;
  a 2xx status returns the parsed body; a status outside 2xx throws an error whose
  message is the body's \<^verbatim>\<open>detail\<close> when that is a non-empty string, and
  \<^verbatim>\<open>API Error: \<close> followed by the status text when \<^verbatim>\<open>detail\<close> is missing or falsy.
\<close>

theorem apiCall_outcomes:
  assumes "net (apiCall_request endpoint method b tok) = Inr r"
  shows "(status r = 204 \<longrightarrow> snd (apiCall net endpoint method b tok) = Inr JNull)
       \<and> (status r \<noteq> 204 \<and> json r = Inl e \<longrightarrow> snd (apiCall net endpoint method b tok) = Inl e)
       \<and> (ok r \<and> status r \<noteq> 204 \<and> json r = Inr data \<longrightarrow>
            snd (apiCall net endpoint method b tok) = Inr data)
       \<and> (\<not> ok r \<and> json r = Inr data \<and> get_prop data ''detail'' = Inr (JStr d) \<and> d \<noteq> '''' \<longrightarrow>
            snd (apiCall net endpoint method b tok) = Inl (Error d))
       \<and> (\<not> ok r \<and> json r = Inr data \<and> get_prop data ''detail'' = Inr v \<and> \<not> truthy v \<longrightarrow>
            snd (apiCall net endpoint method b tok) = Inl (Error (''API Error: '' @ statusText r)))"
  using assms by (auto simp: apiCall_def Let_def apiCall_response_def ok_def)

theorem apiCall_outcomes_witness:
  "snd (apiCall backend ''/auth/members/2'' ''DELETE'' NoBody (JStr ''tok123'')) = Inr JNull
   \<and> snd (apiCall backend ''/auth/me'' ''GET'' NoBody (JStr ''tok123''))
       = Inr (JObj [(''email'', JStr ''admin@example.com'')])
   \<and> snd (apiCall (net_always \<lparr> status = 403, statusText = ''Forbidden'',
                               json = Inr (JObj [(''detail'', JStr ''Not a committee member'')]) \<rparr>)
              ''/auth/otp/request'' ''POST'' (Json (JObj [(''email'', JStr ''x@example.com'')])) JNull)
       = Inl (Error ''Not a committee member'')
   \<and> snd (apiCall (net_always \<lparr> status = 500, statusText = ''Internal Server Error'',
                               json = Inr (JObj [(''detail'', JStr '''')]) \<rparr>)
              ''/auth/me'' ''GET'' NoBody JNull)
       = Inl (Error ''API Error: Internal Server Error'')
   \<and> snd (apiCall (net_always \<lparr> status = 502, statusText = ''Bad Gateway'',
                               json = Inl (SyntaxError ''Unexpected token <'') \<rparr>)
              ''/auth/me'' ''GET'' NoBody JNull)
       = Inl (SyntaxError ''Unexpected token <'')"
proof -
  let ?r403 = "\<lparr> status = 403, statusText = ''Forbidden'',
                 json = Inr (JObj [(''detail'', JStr ''Not a committee member'')]) \<rparr>"
  let ?r500 = "\<lparr> status = 500, statusText = ''Internal Server Error'',
                 json = Inr (JObj [(''detail'', JStr '''')]) \<rparr>"
  let ?r502 = "\<lparr> status = 502, statusText = ''Bad Gateway'',
                 json = Inl (SyntaxError ''Unexpected token <'') \<rparr>"
  have a: "backend (apiCall_request ''/auth/members/2'' ''DELETE'' NoBody (JStr ''tok123''))
             = Inr \<lparr> status = 204, statusText = ''No Content'',
                     json = Inl (SyntaxError ''Unexpected end of JSON input'') \<rparr>"
    by (simp add: backend_def apiCall_request_def API_BASE_URL_def)
  have b: "backend (apiCall_request ''/auth/me'' ''GET'' NoBody (JStr ''tok123''))
             = Inr \<lparr> status = 200, statusText = ''OK'',
                     json = Inr (JObj [(''email'', JStr ''admin@example.com'')]) \<rparr>"
    by (simp add: backend_def apiCall_request_def API_BASE_URL_def)
  have c: "net_always ?r403 (apiCall_request ''/auth/otp/request'' ''POST''
             (Json (JObj [(''email'', JStr ''x@example.com'')])) JNull) = Inr ?r403"
    by (simp add: net_always_def)
  have d: "net_always ?r500 (apiCall_request ''/auth/me'' ''GET'' NoBody JNull) = Inr ?r500"
    by (simp add: net_always_def)
  have e: "net_always ?r502 (apiCall_request ''/auth/me'' ''GET'' NoBody JNull) = Inr ?r502"
    by (simp add: net_always_def)
  show ?thesis
    using a b c d e
      apiCall_outcomes [of backend "''/auth/members/2''" "''DELETE''" NoBody "JStr ''tok123''"]
      apiCall_outcomes [of backend "''/auth/me''" "''GET''" NoBody "JStr ''tok123''" _ _
                           "JObj [(''email'', JStr ''admin@example.com'')]"]
      apiCall_outcomes [of "net_always ?r403" "''/auth/otp/request''" "''POST''"
                           "Json (JObj [(''email'', JStr ''x@example.com'')])" JNull ?r403 _
                           "JObj [(''detail'', JStr ''Not a committee member'')]"
                           "''Not a committee member''"]
      apiCall_outcomes [of "net_always ?r500" "''/auth/me''" "''GET''" NoBody JNull ?r500 _
                           "JObj [(''detail'', JStr [])]" _ "JStr []"]
      apiCall_outcomes [of "net_always ?r502" "''/auth/me''" "''GET''" NoBody JNull ?r502
                           "SyntaxError ''Unexpected token <''"]
    by (simp add: ok_def)
qed

text \<open>
  Claim C10. For a response outside 2xx (so not 204) whose parsed body has no
  \<^verbatim>\<open>detail\<close> (reading it gives \<^verbatim>\<open>undefined\<close>), the call throws an error with the
  message \<^verbatim>\<open>API Error: \<close> followed by the status text. The body is parsed before the
  status is looked at: when it does not parse, the parse error is thrown whatever the
  status, so a message taken from \<^verbatim>\<open>detail\<close> only arises from a body that parses.
\<close>

theorem apiCall_fallback_message:
  assumes "net (apiCall_request endpoint method b tok) = Inr r"
  shows "(\<not> ok r \<and> status r \<noteq> 204 \<and> json r = Inr data \<and> get_prop data ''detail'' = Inr JUndefined \<longrightarrow>
            snd (apiCall net endpoint method b tok) = Inl (Error (''API Error: '' @ statusText r)))
       \<and> (status r \<noteq> 204 \<and> json r = Inl e \<longrightarrow> snd (apiCall net endpoint method b tok) = Inl e)"
  using assms by (auto simp: apiCall_def Let_def apiCall_response_def)

theorem apiCall_fallback_message_witness:
  "snd (apiCall (net_always \<lparr> status = 404, statusText = ''Not Found'',
                               json = Inr (JObj [(''error'', JStr ''no such flat'')]) \<rparr>)
              ''/bill/telegram/register'' ''POST''
              (Json (JObj [(''flat_no'', JStr ''Z-9''), (''telegram_chat_id'', JStr ''1'')])) JNull)
     = Inl (Error ''API Error: Not Found'')
   \<and> snd (apiCall (net_always \<lparr> status = 502, statusText = ''Bad Gateway'',
                               json = Inl (SyntaxError ''Unexpected token <'') \<rparr>)
              ''/auth/me'' ''GET'' NoBody JNull)
       = Inl (SyntaxError ''Unexpected token <'')"
proof -
  let ?r404 = "\<lparr> status = 404, statusText = ''Not Found'',
                 json = Inr (JObj [(''error'', JStr ''no such flat'')]) \<rparr>"
  let ?r502 = "\<lparr> status = 502, statusText = ''Bad Gateway'',
                 json = Inl (SyntaxError ''Unexpected token <'') \<rparr>"
  have a: "net_always ?r404 (apiCall_request ''/bill/telegram/register'' ''POST''
             (Json (JObj [(''flat_no'', JStr ''Z-9''), (''telegram_chat_id'', JStr ''1'')])) JNull)
           = Inr ?r404"
    by (simp add: net_always_def)
  have b: "net_always ?r502 (apiCall_request ''/auth/me'' ''GET'' NoBody JNull) = Inr ?r502"
    by (simp add: net_always_def)
  show ?thesis
    using a b
      apiCall_fallback_message [of "net_always ?r404" "''/bill/telegram/register''" "''POST''"
          "Json (JObj [(''flat_no'', JStr ''Z-9''), (''telegram_chat_id'', JStr ''1'')])" JNull ?r404
          "JObj [(''error'', JStr ''no such flat'')]"]
      apiCall_fallback_message [of "net_always ?r502" "''/auth/me''" "''GET''" NoBody JNull ?r502 _
          "SyntaxError ''Unexpected token <''"]
    by (simp add: ok_def)
qed

text \<open>
  A body that is the JSON value \<^verbatim>\<open>null\<close> has no properties to read: the read of
  \<^verbatim>\<open>detail\<close> itself throws.
\<close>

lemma apiCall_null_body:
  "snd (apiCall (net_always \<lparr> status = 500, statusText = ''Internal Server Error'', json = Inr JNull \<rparr>)
          ''/auth/me'' ''GET'' NoBody JNull)
     = Inl (TypeError (cannot_read ''null'' ''detail''))"
  by (simp add: apiCall_def Let_def apiCall_response_def net_always_def ok_def)

section \<open>Committee management: removal\<close>

text \<open>The removal handler never reaches its request, whatever its arguments.\<close>

lemma handleRemoveMember_sends_nothing:
  "sent (handleRemoveMember net confirm memberId memberEmail' s) = sent s"
  by (simp add: handleRemoveMember_def split: sum.splits)

text \<open>
  Claim C1 at a concrete input. Two members are listed, the session is the first one's,
  and the guard of line 277 gives the second entry (a different email) its remove
  button. The handler, run on that entry's \<^verbatim>\<open>id\<close> and \<^verbatim>\<open>email\<close> with the user ready to
  confirm, ends in the self-removal error; no \<^verbatim>\<open>DELETE\<close> is sent.
\<close>

theorem handleRemoveMember_blocks_other_member:
  "get_prop (members committee) ''length'' = Inr (JNum 2)
   \<and> get_prop bob ''id'' = Inr (JNum 2)
   \<and> get_prop bob ''email'' = Inr (JStr ''bob@example.com'')
   \<and> memberEmail committee = JStr ''admin@example.com''
   \<and> remove_shown committee bob
   \<and> handleRemoveMember backend True (JNum 2) (JStr ''bob@example.com'') committee
       = committee\<lparr> message := error_msg ''Cannot remove your own account.'' \<rparr>
   \<and> sent (handleRemoveMember backend True (JNum 2) (JStr ''bob@example.com'') committee) = []"
  by (simp add: committee_def bob_def alice_def remove_shown_def handleRemoveMember_def
      less_equal_def greater_than_def)

section \<open>Telegram registration\<close>

text \<open>
  Claim C9. When the register call throws, the flat number and the chat identifier keep
  their values and only the error message is set; when it returns, both are emptied.
  When a field is empty the handler sends nothing and leaves both as they are.
\<close>

theorem handleRegister_fields:
  "(flatNo s = '''' \<or> chatId s = '''' \<longrightarrow>
      flatNo (handleRegister net s) = flatNo s \<and> chatId (handleRegister net s) = chatId s
      \<and> sent (handleRegister net s) = sent s)
   \<and> (flatNo s \<noteq> '''' \<and> chatId s \<noteq> ''''
        \<and> snd (apiCall net ''/bill/telegram/register'' ''POST''
                 (Json (JObj [(''flat_no'', JStr (flatNo s)), (''telegram_chat_id'', JStr (chatId s))]))
                 JNull) = Inl e \<longrightarrow>
      flatNo (handleRegister net s) = flatNo s \<and> chatId (handleRegister net s) = chatId s
      \<and> message (handleRegister net s)
          = error_msg (''Registration failed: '' @ error_message e @ ''. Ensure your Flat No is correct.''))
   \<and> (flatNo s \<noteq> '''' \<and> chatId s \<noteq> ''''
        \<and> snd (apiCall net ''/bill/telegram/register'' ''POST''
                 (Json (JObj [(''flat_no'', JStr (flatNo s)), (''telegram_chat_id'', JStr (chatId s))]))
                 JNull) = Inr data \<longrightarrow>
      flatNo (handleRegister net s) = '''' \<and> chatId (handleRegister net s) = '''')"
  by (auto simp: handleRegister_def Let_def split: prod.splits sum.splits)

theorem handleRegister_fields_witness:
  "flatNo (handleRegister net_down registration) = ''A-101''
   \<and> chatId (handleRegister net_down registration) = ''123456789''
   \<and> msg_text (message (handleRegister net_down registration))
       = ''Registration failed: Failed to fetch. Ensure your Flat No is correct.''
   \<and> flatNo (handleRegister backend registration) = ''''
   \<and> chatId (handleRegister backend registration) = ''''
   \<and> sent (handleRegister backend (registration\<lparr> chatId := '''' \<rparr>)) = []"
proof -
  have a: "snd (apiCall net_down ''/bill/telegram/register'' ''POST''
                 (Json (JObj [(''flat_no'', JStr (flatNo registration)),
                              (''telegram_chat_id'', JStr (chatId registration))])) JNull)
           = Inl (TypeError ''Failed to fetch'')"
    by (simp add: apiCall_def Let_def net_down_def)
  have b: "snd (apiCall backend ''/bill/telegram/register'' ''POST''
                 (Json (JObj [(''flat_no'', JStr (flatNo registration)),
                              (''telegram_chat_id'', JStr (chatId registration))])) JNull)
           = Inr (JObj [(''status'', JStr ''linked'')])"
    by (simp add: apiCall_def Let_def backend_def apiCall_request_def API_BASE_URL_def
        apiCall_response_def ok_def)
  show ?thesis
    using handleRegister_fields [of registration net_down "TypeError ''Failed to fetch''"] a
      handleRegister_fields [of registration backend _ "JObj [(''status'', JStr ''linked'')]"] b
      handleRegister_fields [of "registration\<lparr> chatId := '''' \<rparr>" backend]
    by (simp add: registration_def error_msg_def)
qed

section \<open>Login\<close>

text \<open>
  Claim C4. The code field starts empty and every change stores only digits, at most six
  of them when the typed value is within the field's \<^verbatim>\<open>maxLength\<close>. With a code whose
  length is not 6 the verify handler sets its error message and sends nothing; with a
  code of length 6 it sends the verify request carrying that code.
\<close>

theorem otp_verify_guard:
  "otp (Login_init a) = ''''
   \<and> (length (otp s) \<noteq> 6 \<longrightarrow>
        handleVerifyOtp net s = s\<lparr> message := error_msg ''Please enter the 6-digit OTP.'' \<rparr>
        \<and> sent (handleVerifyOtp net s) = sent s)
   \<and> list_all is_digit (otp (otp_onChange v s))
   \<and> (length v \<le> 6 \<longrightarrow> length (otp (otp_onChange v s)) \<le> 6)
   \<and> (length (otp s) = 6 \<longrightarrow>
        sent (handleVerifyOtp net s)
          = sent s @ [apiCall_request ''/auth/otp/verify'' ''POST''
                        (Json (JObj [(''email'', JStr (email s)), (''otp'', JStr (otp s))])) JNull])"
proof -
  have init: "otp (Login_init a) = []"
    by (simp add: Login_init_def login_state.defs app_state.defs)
  have blocked: "length (otp s) \<noteq> 6 \<longrightarrow>
        handleVerifyOtp net s = s\<lparr> message := error_msg ''Please enter the 6-digit OTP.'' \<rparr>
        \<and> sent (handleVerifyOtp net s) = sent s"
    by (simp add: handleVerifyOtp_def)
  have digits: "list_all is_digit (otp (otp_onChange v s))"
    by (simp add: otp_onChange_def list_all_iff)
  have bounded: "length v \<le> 6 \<longrightarrow> length (otp (otp_onChange v s)) \<le> 6"
  proof
    assume "length v \<le> 6"
    with length_filter_le [of is_digit v] have "length (filter is_digit v) \<le> 6"
      by (rule order_trans)
    then show "length (otp (otp_onChange v s)) \<le> 6"
      by (simp add: otp_onChange_def)
  qed
  have sends: "length (otp s) = 6 \<longrightarrow>
        sent (handleVerifyOtp net s)
          = sent s @ [apiCall_request ''/auth/otp/verify'' ''POST''
                        (Json (JObj [(''email'', JStr (email s)), (''otp'', JStr (otp s))])) JNull]"
    by (auto simp: handleVerifyOtp_def apiCall_def Let_def split: prod.splits sum.splits)
  from init blocked digits bounded sends show ?thesis by blast
qed

theorem otp_verify_guard_witness:
  "sent (handleVerifyOtp backend
           (otp_onChange ''12a4'' (Login_init (tree_state (App_start backend None))))) = []
   \<and> msg_text (message (handleVerifyOtp backend
           (otp_onChange ''12a4'' (Login_init (tree_state (App_start backend None))))))
       = ''Please enter the 6-digit OTP.''
   \<and> otp (otp_onChange ''12 34-56'' (Login_init (tree_state (App_start backend None)))) = ''123456''
   \<and> length (sent (handleVerifyOtp backend
           (otp_onChange ''12 34-56'' (Login_init (tree_state (App_start backend None)))))) = 1"
  using otp_verify_guard [of "tree_state (App_start backend None)"
      "otp_onChange ''12a4'' (Login_init (tree_state (App_start backend None)))" backend "''12a4''"]
    otp_verify_guard [of "tree_state (App_start backend None)"
      "otp_onChange ''12 34-56'' (Login_init (tree_state (App_start backend None)))" backend
      "''12 34-56''"]
  by (simp add: otp_onChange_def is_digit_def error_msg_def Login_init_def login_state.defs
      app_state.defs App_start_def App_commit_def App_render_def renderContent_def
      App_init_def checkToken_def defaultPage_def)

section \<open>Login and startup: handler lemmas\<close>

lemma handleRequestOtp_frame:
  "email (handleRequestOtp net s) = email s
   \<and> otp (handleRequestOtp net s) = otp s
   \<and> token (handleRequestOtp net s) = token s
   \<and> currentPage (handleRequestOtp net s) = currentPage s
   \<and> isAuthLoading (handleRequestOtp net s) = isAuthLoading s
   \<and> \<not> isLoading (handleRequestOtp net s)
   \<and> sent (handleRequestOtp net s)
       = (if email s = '''' then sent s
          else sent s @ [apiCall_request ''/auth/otp/request'' ''POST''
                           (Json (JObj [(''email'', JStr (email s))])) JNull])"
  if "\<not> isLoading s"
  using that by (auto simp: handleRequestOtp_def apiCall_def Let_def split: prod.splits sum.splits)

lemma handleRequestOtp_sent_mode:
  assumes "email s \<noteq> ''''"
    and "snd (apiCall net ''/auth/otp/request'' ''POST'' (Json (JObj [(''email'', JStr (email s))])) JNull)
         = Inr data"
  shows "otpMode (handleRequestOtp net s)"
  using assms by (auto simp: handleRequestOtp_def Let_def split: prod.splits sum.splits)

lemma handleVerifyOtp_sent:
  "length (otp s) = 6 \<Longrightarrow>
   sent (handleVerifyOtp net s)
     = sent s @ [apiCall_request ''/auth/otp/verify'' ''POST''
                   (Json (JObj [(''email'', JStr (email s)), (''otp'', JStr (otp s))])) JNull]"
  by (auto simp: handleVerifyOtp_def apiCall_def Let_def split: prod.splits sum.splits)

lemma handleVerifyOtp_granted:
  assumes "length (otp s) = 6"
    and "snd (apiCall net ''/auth/otp/verify'' ''POST''
                (Json (JObj [(''email'', JStr (email s)), (''otp'', JStr (otp s))])) JNull) = Inr data"
    and "get_prop data ''access_token'' = Inr tok"
  shows "jwt_token (handleVerifyOtp net s) = Some (ToString tok)
         \<and> token (handleVerifyOtp net s) = tok
         \<and> memberEmail (handleVerifyOtp net s) = JStr (email s)
         \<and> currentPage (handleVerifyOtp net s) = currentPage s
         \<and> isAuthLoading (handleVerifyOtp net s) = isAuthLoading s"
  using assms by (auto simp: handleVerifyOtp_def Let_def split: prod.splits sum.splits)

lemma handleVerifyOtp_thrown:
  assumes "length (otp s) = 6"
    and "snd (apiCall net ''/auth/otp/verify'' ''POST''
                (Json (JObj [(''email'', JStr (email s)), (''otp'', JStr (otp s))])) JNull) = Inl e"
  shows "message (handleVerifyOtp net s) = error_msg (error_message e)"
  using assms by (auto simp: handleVerifyOtp_def Let_def split: prod.splits sum.splits)

lemma defaultPage_frame:
  "sent (defaultPage s) = sent s \<and> jwt_token (defaultPage s) = jwt_token s
   \<and> token (defaultPage s) = token s \<and> memberEmail (defaultPage s) = memberEmail s
   \<and> isAuthLoading (defaultPage s) = isAuthLoading s \<and> message (defaultPage s) = message s"
  by (simp add: defaultPage_def)

text \<open>
  With a truthy token the root never renders, whatever the rest of its state: no view
  behind the login is ever shown.
\<close>

lemma App_render_token:
  "truthy (token s) \<Longrightarrow> App_render s = Inl (ReferenceError ''LogOut is not defined'')"
  by (simp add: App_render_def)

lemma App_commit_token:
  "truthy (token s) \<Longrightarrow> App_commit s = Unmounted (ReferenceError ''LogOut is not defined'') s"
  by (simp add: App_commit_def App_render_def)

lemma App_start_no_token:
  "App_start net None
     = Mounted ((App_init None)\<lparr> isAuthLoading := False \<rparr>)"
  by (simp add: App_start_def App_commit_def App_render_def App_init_def checkToken_def
      defaultPage_def)

text \<open>
  What the token check does when it runs on a cached token: one \<^verbatim>\<open>GET /auth/me\<close> with
  the token as bearer; on a member with an email the token is kept and the email taken;
  on a throw the storage slot is emptied and the token state set to \<^verbatim>\<open>null\<close>.
\<close>

lemma checkToken_cached:
  assumes "t \<noteq> ''''"
  shows "sent (checkToken net (App_init (Some t)))
           = [apiCall_request ''/auth/me'' ''GET'' NoBody (JStr t)]
       \<and> (snd (apiCall net ''/auth/me'' ''GET'' NoBody (JStr t)) = Inr member
            \<and> get_prop member ''email'' = Inr e \<longrightarrow>
          jwt_token (checkToken net (App_init (Some t))) = Some t
          \<and> token (checkToken net (App_init (Some t))) = JStr t
          \<and> memberEmail (checkToken net (App_init (Some t))) = e)
       \<and> (snd (apiCall net ''/auth/me'' ''GET'' NoBody (JStr t)) = Inl err \<longrightarrow>
          jwt_token (checkToken net (App_init (Some t))) = None
          \<and> token (checkToken net (App_init (Some t))) = JNull)"
  using assms
  by (auto simp: checkToken_def App_init_def apiCall_def Let_def split: prod.splits sum.splits)

lemma App_start_cached:
  "t \<noteq> '''' \<Longrightarrow>
   App_start net (Some t) = Unmounted (ReferenceError ''LogOut is not defined'') (App_init (Some t))"
  by (simp add: App_start_def App_render_def App_init_def)

section \<open>Login: the example\<close>

text \<open>
  Claim C3 at its example. The root starts without a stored token and shows the login
  view; \<^verbatim>\<open>admin@example.com\<close> is typed, the OTP is requested (the code form appears),
  \<^verbatim>\<open>123456\<close> is typed and verified against a backend that answers 200 with an
  \<^verbatim>\<open>access_token\<close>. Exactly one request goes to the verify endpoint, with that email and
  code, and the token is written to the storage slot and to the token state. The root
  then renders again with a truthy token and throws on the \<^verbatim>\<open>LogOut\<close> icon: the tree is
  unmounted, the page effect does not run, and the page is still the login page.
\<close>

theorem login_example_unmounts:
  "(let verify = \<lparr> url = ''http://localhost:8000/api/v1/auth/otp/verify'',
                   http_method = ''POST'',
                   headers = [(''Content-Type'', ''application/json'')],
                   req_body = Json (JObj [(''email'', JStr ''admin@example.com''),
                                          (''otp'', JStr ''123456'')]) \<rparr>;
        s1 = handleRequestOtp backend
               (email_onChange ''admin@example.com''
                 (Login_init (tree_state (App_start backend None))));
        s = handleVerifyOtp backend (otp_onChange ''123456'' s1)
    in App_render (tree_state (App_start backend None)) = Inr LoginView
       \<and> otpMode s1 \<and> \<not> isLoading s1
       \<and> filter (\<lambda>r. url r = API_BASE_URL @ ''/auth/otp/verify'') (sent s) = [verify]
       \<and> jwt_token s = Some ''tok123'' \<and> token s = JStr ''tok123''
       \<and> memberEmail s = JStr ''admin@example.com''
       \<and> App_render s = Inl (ReferenceError ''LogOut is not defined'')
       \<and> App_commit s = Unmounted (ReferenceError ''LogOut is not defined'') s
       \<and> currentPage s = ''login'')"
proof -
  let ?verify = "\<lparr> url = ''http://localhost:8000/api/v1/auth/otp/verify'',
                   http_method = ''POST'',
                   headers = [(''Content-Type'', ''application/json'')],
                   req_body = Json (JObj [(''email'', JStr ''admin@example.com''),
                                          (''otp'', JStr ''123456'')]) \<rparr>"
  let ?otpreq = "apiCall_request ''/auth/otp/request'' ''POST''
                   (Json (JObj [(''email'', JStr ''admin@example.com'')])) JNull"
  let ?a = "tree_state (App_start backend None)"
  let ?s0 = "email_onChange ''admin@example.com'' (Login_init ?a)"
  let ?s1 = "handleRequestOtp backend ?s0"
  let ?s2 = "otp_onChange ''123456'' ?s1"
  let ?v = "handleVerifyOtp backend ?s2"
  have a: "?a = (App_init None)\<lparr> isAuthLoading := False \<rparr>"
    by (simp add: App_start_no_token)
  have shown: "App_render ?a = Inr LoginView"
    unfolding a by (simp add: App_render_def renderContent_def App_init_def)
  have s0: "email ?s0 = ''admin@example.com'' \<and> sent ?s0 = [] \<and> \<not> isAuthLoading ?s0
            \<and> \<not> isLoading ?s0 \<and> currentPage ?s0 = ''login''"
    unfolding a
    by (simp add: email_onChange_def Login_init_def login_state.defs app_state.defs App_init_def)
  then have nl: "\<not> isLoading ?s0" and ne: "email ?s0 \<noteq> ''''"
    by simp_all
  have s1: "email ?s1 = ''admin@example.com'' \<and> \<not> isAuthLoading ?s1 \<and> \<not> isLoading ?s1
            \<and> currentPage ?s1 = ''login'' \<and> sent ?s1 = [?otpreq]"
    using handleRequestOtp_frame [OF nl, of backend] s0 by simp
  have "snd (apiCall backend ''/auth/otp/request'' ''POST''
               (Json (JObj [(''email'', JStr (email ?s0))])) JNull)
        = Inr (JObj [(''message'', JStr ''sent'')])"
    using s0
    by (simp add: apiCall_def Let_def backend_def apiCall_request_def API_BASE_URL_def
        apiCall_response_def ok_def)
  from handleRequestOtp_sent_mode [OF ne this] have mode: "otpMode ?s1" .
  have s2: "email ?s2 = ''admin@example.com'' \<and> \<not> isAuthLoading ?s2 \<and> otp ?s2 = ''123456''
            \<and> currentPage ?s2 = ''login'' \<and> sent ?s2 = [?otpreq]"
    using s1 by (simp add: otp_onChange_def is_digit_def)
  have len: "length (otp ?s2) = 6"
    using s2 by simp
  have vreq: "apiCall_request ''/auth/otp/verify'' ''POST''
                (Json (JObj [(''email'', JStr (email ?s2)), (''otp'', JStr (otp ?s2))])) JNull
              = ?verify"
    using s2 by (simp add: apiCall_request_def API_BASE_URL_def)
  have urls: "url ?otpreq \<noteq> API_BASE_URL @ ''/auth/otp/verify''
              \<and> url ?verify = API_BASE_URL @ ''/auth/otp/verify''"
    by (simp add: apiCall_request_def API_BASE_URL_def)
  have "sent ?v = [?otpreq, ?verify]"
    using handleVerifyOtp_sent [OF len, of backend] s2 vreq by simp
  then have once: "filter (\<lambda>r. url r = API_BASE_URL @ ''/auth/otp/verify'') (sent ?v) = [?verify]"
    using urls by simp
  have "backend ?verify
        = Inr \<lparr> status = 200, statusText = ''OK'',
                json = Inr (JObj [(''access_token'', JStr ''tok123'')]) \<rparr>"
    by (simp add: backend_def API_BASE_URL_def)
  then have "snd (apiCall backend ''/auth/otp/verify'' ''POST''
                 (Json (JObj [(''email'', JStr (email ?s2)), (''otp'', JStr (otp ?s2))])) JNull)
             = Inr (JObj [(''access_token'', JStr ''tok123'')])"
    using vreq by (simp add: apiCall_def Let_def apiCall_response_def ok_def)
  from handleVerifyOtp_granted [OF len this, of "JStr ''tok123''"]
  have s: "jwt_token ?v = Some ''tok123'' \<and> token ?v = JStr ''tok123''
           \<and> memberEmail ?v = JStr ''admin@example.com'' \<and> currentPage ?v = ''login''"
    using s2 by simp
  then have "truthy (token ?v)"
    by simp
  then have thrown: "App_render ?v = Inl (ReferenceError ''LogOut is not defined'')
      \<and> App_commit ?v = Unmounted (ReferenceError ''LogOut is not defined'') ?v"
    by (simp add: App_render_token App_commit_token)
  from shown mode s1 once s thrown show ?thesis
    unfolding Let_def by blast
qed

section \<open>Startup\<close>

text \<open>
  Claim C7 at a concrete input. With \<^verbatim>\<open>tok123\<close> cached in the storage slot the token
  state is truthy from the first render, which throws on the \<^verbatim>\<open>LogOut\<close> icon: the tree
  is unmounted before any effect runs. No \<^verbatim>\<open>GET /auth/me\<close> is sent, on a backend that
  would accept the token as on a network that is down, and the cached token is neither
  used nor removed.
\<close>

theorem startup_cached_token_unmounts:
  "App_render (App_init (Some ''tok123'')) = Inl (ReferenceError ''LogOut is not defined'')
   \<and> App_start backend (Some ''tok123'')
       = Unmounted (ReferenceError ''LogOut is not defined'') (App_init (Some ''tok123''))
   \<and> App_start net_down (Some ''tok123'')
       = Unmounted (ReferenceError ''LogOut is not defined'') (App_init (Some ''tok123''))
   \<and> sent (tree_state (App_start backend (Some ''tok123''))) = []
   \<and> jwt_token (tree_state (App_start net_down (Some ''tok123''))) = Some ''tok123''
   \<and> memberEmail (tree_state (App_start backend (Some ''tok123''))) = JStr ''''
   \<and> isAuthLoading (tree_state (App_start backend (Some ''tok123'')))
   \<and> snd (apiCall backend ''/auth/me'' ''GET'' NoBody (JStr ''tok123''))
       = Inr (JObj [(''email'', JStr ''admin@example.com'')])"
proof -
  have t: "''tok123'' \<noteq> ''''" by simp
  have r: "App_render (App_init (Some ''tok123'')) = Inl (ReferenceError ''LogOut is not defined'')"
    by (simp add: App_render_def App_init_def)
  have a: "snd (apiCall backend ''/auth/me'' ''GET'' NoBody (JStr ''tok123''))
           = Inr (JObj [(''email'', JStr ''admin@example.com'')])"
    by (simp add: apiCall_def Let_def backend_def apiCall_request_def API_BASE_URL_def
        apiCall_response_def ok_def)
  have i: "sent (App_init (Some ''tok123'')) = []
           \<and> jwt_token (App_init (Some ''tok123'')) = Some ''tok123''
           \<and> memberEmail (App_init (Some ''tok123'')) = JStr ''''
           \<and> isAuthLoading (App_init (Some ''tok123''))"
    by (simp add: App_init_def)
  show ?thesis
    using r a i App_start_cached [OF t, of backend] App_start_cached [OF t, of net_down]
    by simp
qed

section \<open>Committee management: handler lemmas\<close>

lemma fetchMembers_frame:
  "sent (fetchMembers net s) = sent s @ [apiCall_request ''/auth/members'' ''GET'' NoBody (token s)]
   \<and> token (fetchMembers net s) = token s
   \<and> memberEmail (fetchMembers net s) = memberEmail s
   \<and> newEmail (fetchMembers net s) = newEmail s
   \<and> newPhone (fetchMembers net s) = newPhone s
   \<and> \<not> isLoading (fetchMembers net s)"
  by (auto simp: fetchMembers_def apiCall_def Let_def split: prod.splits sum.splits)

lemma fetchMembers_loaded:
  "GET_members net (token s) = Inr data \<Longrightarrow>
   members (fetchMembers net s) = data \<and> message (fetchMembers net s) = message s"
  by (auto simp: fetchMembers_def GET_members_def Let_def split: prod.splits sum.splits)

lemma fetchMembers_thrown:
  "GET_members net (token s) = Inl e \<Longrightarrow>
   members (fetchMembers net s) = members s
   \<and> message (fetchMembers net s)
       = error_msg (''Failed to load committee members: '' @ error_message e)"
  by (auto simp: fetchMembers_def GET_members_def Let_def split: prod.splits sum.splits)

lemma fetchMembers_members:
  "members (fetchMembers net s) = members s
   \<or> GET_members net (token s) = Inr (members (fetchMembers net s))"
  by (cases "GET_members net (token s)") (simp_all add: fetchMembers_loaded fetchMembers_thrown)

lemma handleAddMember_blocked:
  "newEmail s = '''' \<Longrightarrow> handleAddMember net s = s\<lparr> message := error_msg ''Email is required.'' \<rparr>"
  by (simp add: handleAddMember_def)

lemma handleAddMember_thrown:
  assumes "newEmail s \<noteq> ''''"
    and "snd (apiCall net ''/auth/members'' ''POST''
                (Json (JObj [(''email'', JStr (newEmail s)),
                             (''phone_number'', if newPhone s \<noteq> '''' then JStr (newPhone s) else JNull)]))
                (token s)) = Inl e"
  shows "handleAddMember net s
           = s\<lparr> sent := sent s @ [apiCall_request ''/auth/members'' ''POST''
                   (Json (JObj [(''email'', JStr (newEmail s)),
                                (''phone_number'', if newPhone s \<noteq> '''' then JStr (newPhone s) else JNull)]))
                   (token s)],
                message := error_msg (''Failed to add member: '' @ error_message e),
                isLoading := False \<rparr>"
  using assms by (auto simp: handleAddMember_def apiCall_def Let_def split: prod.splits sum.splits)

lemma handleAddMember_added:
  assumes "newEmail s \<noteq> ''''"
    and "snd (apiCall net ''/auth/members'' ''POST''
                (Json (JObj [(''email'', JStr (newEmail s)),
                             (''phone_number'', if newPhone s \<noteq> '''' then JStr (newPhone s) else JNull)]))
                (token s)) = Inr data"
  shows "handleAddMember net s
           = fetchMembers net
               (s\<lparr> isLoading := True,
                    sent := sent s @ [apiCall_request ''/auth/members'' ''POST''
                      (Json (JObj [(''email'', JStr (newEmail s)),
                                   (''phone_number'', if newPhone s \<noteq> '''' then JStr (newPhone s) else JNull)]))
                      (token s)],
                    message := success_msg (''Member '' @ newEmail s @ '' added successfully.''),
                    newEmail := '''', newPhone := '''' \<rparr>)"
  using assms by (auto simp: handleAddMember_def apiCall_def Let_def split: prod.splits sum.splits)

lemma removeMember_request_thrown:
  assumes "snd (apiCall net (''/auth/members/'' @ ToString memberId) ''DELETE'' NoBody (token s)) = Inl e"
  shows "removeMember_request net memberId memberEmail' s
           = s\<lparr> sent := sent s @ [apiCall_request (''/auth/members/'' @ ToString memberId) ''DELETE''
                                     NoBody (token s)],
                message := error_msg (''Failed to remove member: '' @ error_message e),
                isLoading := False \<rparr>"
  using assms by (auto simp: removeMember_request_def apiCall_def Let_def split: prod.splits sum.splits)

lemma removeMember_request_removed:
  assumes "snd (apiCall net (''/auth/members/'' @ ToString memberId) ''DELETE'' NoBody (token s)) = Inr data"
  shows "removeMember_request net memberId memberEmail' s
           = fetchMembers net
               (s\<lparr> isLoading := True,
                    sent := sent s @ [apiCall_request (''/auth/members/'' @ ToString memberId) ''DELETE''
                                        NoBody (token s)],
                    message := success_msg (ToString memberEmail' @ '' removed successfully.'') \<rparr>)"
  using assms by (auto simp: removeMember_request_def apiCall_def Let_def split: prod.splits sum.splits)

lemma handleAddMember_members:
  "token (handleAddMember net s) = token s
   \<and> (members (handleAddMember net s) = members s
        \<or> GET_members net (token s) = Inr (members (handleAddMember net s)))"
proof (cases "newEmail s = ''''")
  case True
  then show ?thesis by (simp add: handleAddMember_blocked)
next
  case False
  show ?thesis
  proof (cases "snd (apiCall net ''/auth/members'' ''POST''
                (Json (JObj [(''email'', JStr (newEmail s)),
                             (''phone_number'', if newPhone s \<noteq> '''' then JStr (newPhone s) else JNull)]))
                (token s))")
    case (Inl e)
    from handleAddMember_thrown [OF False Inl] show ?thesis by simp
  next
    case (Inr data)
    let ?s' = "s\<lparr> isLoading := True,
                    sent := sent s @ [apiCall_request ''/auth/members'' ''POST''
                      (Json (JObj [(''email'', JStr (newEmail s)),
                                   (''phone_number'', if newPhone s \<noteq> '''' then JStr (newPhone s) else JNull)]))
                      (token s)],
                    message := success_msg (''Member '' @ newEmail s @ '' added successfully.''),
                    newEmail := '''', newPhone := '''' \<rparr>"
    have "handleAddMember net s = fetchMembers net ?s'"
      by (rule handleAddMember_added [OF False Inr])
    moreover have "token ?s' = token s \<and> members ?s' = members s" by simp
    ultimately show ?thesis
      using fetchMembers_members [of net ?s'] fetchMembers_frame [of net ?s'] by simp
  qed
qed

lemma removeMember_request_members:
  "token (removeMember_request net memberId memberEmail' s) = token s
   \<and> (members (removeMember_request net memberId memberEmail' s) = members s
        \<or> GET_members net (token s) = Inr (members (removeMember_request net memberId memberEmail' s)))"
proof (cases "snd (apiCall net (''/auth/members/'' @ ToString memberId) ''DELETE'' NoBody (token s))")
  case (Inl e)
  from removeMember_request_thrown [OF Inl] show ?thesis by simp
next
  case (Inr data)
  let ?s' = "s\<lparr> isLoading := True,
                  sent := sent s @ [apiCall_request (''/auth/members/'' @ ToString memberId) ''DELETE''
                                      NoBody (token s)],
                  message := success_msg (ToString memberEmail' @ '' removed successfully.'') \<rparr>"
  have "removeMember_request net memberId memberEmail' s = fetchMembers net ?s'"
    by (rule removeMember_request_removed [OF Inr])
  moreover have "token ?s' = token s \<and> members ?s' = members s" by simp
  ultimately show ?thesis
    using fetchMembers_members [of net ?s'] fetchMembers_frame [of net ?s'] by simp
qed

lemma handleRemoveMember_members:
  "token (handleRemoveMember net confirm memberId memberEmail' s) = token s
   \<and> members (handleRemoveMember net confirm memberId memberEmail' s) = members s"
  by (simp add: handleRemoveMember_def split: sum.splits)

lemma settings_step_members:
  "token (settings_step s (net, ev)) = token s
   \<and> (members (settings_step s (net, ev)) = members s
        \<or> GET_members net (token s) = Inr (members (settings_step s (net, ev))))"
proof (cases ev)
  case Mount
  then show ?thesis
    using fetchMembers_members [of net s] fetchMembers_frame [of net s] by simp
next
  case (NewEmailChange v)
  then show ?thesis by simp
next
  case (NewPhoneChange v)
  then show ?thesis by simp
next
  case AddMember
  then show ?thesis
    using handleAddMember_members [of net s] by simp
next
  case (RemoveMember confirm memberId memberEmail')
  then show ?thesis
    using handleRemoveMember_members [of net confirm memberId memberEmail' s] by simp
qed

lemma settings_run_members:
  "token (settings_run s evs) = token s
   \<and> (members (settings_run s evs) = members s
        \<or> (\<exists>net ev. (net, ev) \<in> set evs
              \<and> GET_members net (token s) = Inr (members (settings_run s evs))))"
proof (induction evs rule: rev_induct)
  case Nil
  then show ?case by (simp add: settings_run_def)
next
  case (snoc x evs)
  obtain net ev where x: "x = (net, ev)" by (cases x)
  let ?s' = "settings_run s evs"
  let ?s'' = "settings_run s (evs @ [x])"
  have run: "?s'' = settings_step ?s' (net, ev)"
    by (simp add: settings_run_def x)
  from snoc.IH have tok': "token ?s' = token s" by simp
  from settings_step_members [of ?s' net ev] run tok'
  have tok: "token ?s'' = token s"
    and step: "members ?s'' = members ?s' \<or> GET_members net (token s) = Inr (members ?s'')"
    by simp_all
  from step show ?case
  proof
    assume same: "members ?s'' = members ?s'"
    from snoc.IH have "members ?s' = members s
        \<or> (\<exists>net ev. (net, ev) \<in> set evs \<and> GET_members net (token s) = Inr (members ?s'))"
      by simp
    then show ?thesis
    proof
      assume "members ?s' = members s"
      with same tok show ?thesis by simp
    next
      assume "\<exists>net ev. (net, ev) \<in> set evs \<and> GET_members net (token s) = Inr (members ?s')"
      then obtain n e where "(n, e) \<in> set evs" "GET_members n (token s) = Inr (members ?s')"
        by blast
      then have "(n, e) \<in> set (evs @ [x]) \<and> GET_members n (token s) = Inr (members ?s'')"
        using same by simp
      with tok show ?thesis by blast
    qed
  next
    assume "GET_members net (token s) = Inr (members ?s'')"
    moreover have "(net, ev) \<in> set (evs @ [x])" by (simp add: x)
    ultimately show ?thesis using tok by blast
  qed
qed

section \<open>Committee management: adding\<close>

text \<open>
  The add guard as written, and the handler behind it: with an array of members the
  button is disabled exactly while loading, at five or more entries, or with an empty
  email; the handler, once it runs with a non-empty email, sends the \<^verbatim>\<open>POST\<close> first.
\<close>

lemma add_disabled_array:
  "members s = JArr ms \<Longrightarrow>
   add_disabled s = Inr (isLoading s \<or> 5 \<le> length ms \<or> newEmail s = '''')"
  by (simp add: add_disabled_def greater_equal_def)

lemma handleAddMember_sends:
  assumes "newEmail s \<noteq> ''''"
  shows "\<exists>rest. sent (handleAddMember net s)
           = sent s @ apiCall_request ''/auth/members'' ''POST''
               (Json (JObj [(''email'', JStr (newEmail s)),
                            (''phone_number'',
                             if newPhone s \<noteq> '''' then JStr (newPhone s) else JNull)]))
               (token s) # rest"
proof (cases "snd (apiCall net ''/auth/members'' ''POST''
                (Json (JObj [(''email'', JStr (newEmail s)),
                             (''phone_number'', if newPhone s \<noteq> '''' then JStr (newPhone s) else JNull)]))
                (token s))")
  case (Inl e)
  from handleAddMember_thrown [OF assms Inl] show ?thesis by simp
next
  case (Inr data)
  let ?s' = "s\<lparr> isLoading := True,
                  sent := sent s @ [apiCall_request ''/auth/members'' ''POST''
                    (Json (JObj [(''email'', JStr (newEmail s)),
                                 (''phone_number'', if newPhone s \<noteq> '''' then JStr (newPhone s) else JNull)]))
                    (token s)],
                  message := success_msg (''Member '' @ newEmail s @ '' added successfully.''),
                  newEmail := '''', newPhone := '''' \<rparr>"
  have "handleAddMember net s = fetchMembers net ?s'"
    by (rule handleAddMember_added [OF assms Inr])
  then show ?thesis
    using fetchMembers_frame [of net ?s'] by simp
qed

text \<open>With an array of members, none of them \<^verbatim>\<open>null\<close>, the render ends on the icon.\<close>

lemma SettingsComponent_render_array:
  "members s = JArr ms \<Longrightarrow> JNull \<notin> set ms \<Longrightarrow>
   SettingsComponent_render s = ReferenceError ''Plus is not defined''"
  by (simp add: SettingsComponent_render_def members_map_def)

text \<open>
  Claim C5 at a concrete input. Two members are listed, an email is typed and nothing is
  in flight, so the guard of the add button leaves it enabled. Rendering the committee
  view throws on the \<^verbatim>\<open>Plus\<close> icon inside the add button, in this state as in the
  view's first state, and the root of a session, set to the committee page, throws on
  the \<^verbatim>\<open>LogOut\<close> icon before any page: the add button never exists, so no add
  proceeds.
\<close>

theorem add_member_view_throws:
  "get_prop (members committee) ''length'' = Inr (JNum 2)
   \<and> newEmail committee = ''carol@example.com''
   \<and> \<not> isLoading committee
   \<and> add_disabled committee = Inr False
   \<and> SettingsComponent_render committee = ReferenceError ''Plus is not defined''
   \<and> SettingsComponent_render
        (Settings_init (JStr ''tok123'') (JStr ''admin@example.com'')
           \<lparr> msg_type = '''', msg_text = '''' \<rparr>)
       = ReferenceError ''Plus is not defined''
   \<and> App_render
        ((App_init (Some ''tok123''))
           \<lparr> memberEmail := JStr ''admin@example.com'', currentPage := ''settings'',
             isAuthLoading := False \<rparr>)
       = Inl (ReferenceError ''LogOut is not defined'')"
  by (simp add: committee_def alice_def bob_def add_disabled_def greater_equal_def
      SettingsComponent_render_def members_map_def Settings_init_def App_render_def
      App_init_def)

section \<open>Committee management: the list\<close>

text \<open>
  Claim C6. When the \<^verbatim>\<open>POST\<close> of an add returns, the next request is the
  \<^verbatim>\<open>GET\<close> of the members endpoint and the list becomes what it returns; the same holds
  for the request part of a removal when its \<^verbatim>\<open>DELETE\<close> returns; the removal handler
  itself leaves the list as it is. Over any sequence of events of the view, the list is
  the initial empty array or exactly what a \<^verbatim>\<open>GET\<close> of the members endpoint returned on
  one of the networks of that sequence.
\<close>

theorem members_only_refetched:
  "(newEmail s \<noteq> ''''
      \<and> snd (apiCall net ''/auth/members'' ''POST''
               (Json (JObj [(''email'', JStr (newEmail s)),
                            (''phone_number'',
                             if newPhone s \<noteq> '''' then JStr (newPhone s) else JNull)]))
               (token s)) = Inr added \<longrightarrow>
      sent (handleAddMember net s)
        = sent s @ [apiCall_request ''/auth/members'' ''POST''
                      (Json (JObj [(''email'', JStr (newEmail s)),
                                   (''phone_number'',
                                    if newPhone s \<noteq> '''' then JStr (newPhone s) else JNull)]))
                      (token s),
                    apiCall_request ''/auth/members'' ''GET'' NoBody (token s)]
      \<and> (GET_members net (token s) = Inr ms \<longrightarrow> members (handleAddMember net s) = ms))
   \<and> (snd (apiCall net (''/auth/members/'' @ ToString memberId) ''DELETE'' NoBody (token s)) = Inr removed \<longrightarrow>
      sent (removeMember_request net memberId memberEmail' s)
        = sent s @ [apiCall_request (''/auth/members/'' @ ToString memberId) ''DELETE'' NoBody (token s),
                    apiCall_request ''/auth/members'' ''GET'' NoBody (token s)]
      \<and> (GET_members net (token s) = Inr ms \<longrightarrow>
           members (removeMember_request net memberId memberEmail' s) = ms))
   \<and> members (handleRemoveMember net confirm memberId memberEmail' s) = members s
   \<and> (members (settings_run (Settings_init tok em msg) evs) = JArr []
        \<or> (\<exists>net' ev. (net', ev) \<in> set evs
              \<and> GET_members net' tok = Inr (members (settings_run (Settings_init tok em msg) evs))))"
proof -
  let ?post = "apiCall_request ''/auth/members'' ''POST''
                 (Json (JObj [(''email'', JStr (newEmail s)),
                              (''phone_number'',
                               if newPhone s \<noteq> '''' then JStr (newPhone s) else JNull)]))
                 (token s)"
  let ?delete = "apiCall_request (''/auth/members/'' @ ToString memberId) ''DELETE'' NoBody (token s)"
  let ?get = "apiCall_request ''/auth/members'' ''GET'' NoBody (token s)"
  have add: "sent (handleAddMember net s) = sent s @ [?post, ?get]
             \<and> (GET_members net (token s) = Inr ms \<longrightarrow> members (handleAddMember net s) = ms)"
    if ne: "newEmail s \<noteq> ''''"
      and res: "snd (apiCall net ''/auth/members'' ''POST''
               (Json (JObj [(''email'', JStr (newEmail s)),
                            (''phone_number'',
                             if newPhone s \<noteq> '''' then JStr (newPhone s) else JNull)]))
               (token s)) = Inr added"
  proof -
    let ?s' = "s\<lparr> isLoading := True, sent := sent s @ [?post],
                    message := success_msg (''Member '' @ newEmail s @ '' added successfully.''),
                    newEmail := '''', newPhone := '''' \<rparr>"
    have eq: "handleAddMember net s = fetchMembers net ?s'"
      by (rule handleAddMember_added [OF ne res])
    have tok: "token ?s' = token s" by simp
    show ?thesis
      unfolding eq using fetchMembers_frame [of net ?s'] fetchMembers_loaded [of net ?s' ms] tok
      by simp
  qed
  have remove: "sent (removeMember_request net memberId memberEmail' s) = sent s @ [?delete, ?get]
             \<and> (GET_members net (token s) = Inr ms \<longrightarrow>
                  members (removeMember_request net memberId memberEmail' s) = ms)"
    if res: "snd (apiCall net (''/auth/members/'' @ ToString memberId) ''DELETE'' NoBody (token s))
             = Inr removed"
  proof -
    let ?s' = "s\<lparr> isLoading := True, sent := sent s @ [?delete],
                    message := success_msg (ToString memberEmail' @ '' removed successfully.'') \<rparr>"
    have eq: "removeMember_request net memberId memberEmail' s = fetchMembers net ?s'"
      by (rule removeMember_request_removed [OF res])
    have tok: "token ?s' = token s" by simp
    show ?thesis
      unfolding eq using fetchMembers_frame [of net ?s'] fetchMembers_loaded [of net ?s' ms] tok
      by simp
  qed
  have handler: "members (handleRemoveMember net confirm memberId memberEmail' s) = members s"
    by (simp add: handleRemoveMember_members)
  have init: "token (Settings_init tok em msg) = tok \<and> members (Settings_init tok em msg) = JArr []"
    by (simp add: Settings_init_def)
  have run: "members (settings_run (Settings_init tok em msg) evs) = JArr []
        \<or> (\<exists>net' ev. (net', ev) \<in> set evs
              \<and> GET_members net' tok = Inr (members (settings_run (Settings_init tok em msg) evs)))"
    using settings_run_members [of "Settings_init tok em msg" evs] init by simp
  from add remove handler run show ?thesis by blast
qed

theorem members_only_refetched_witness:
  "newEmail committee \<noteq> ''''
   \<and> snd (apiCall backend ''/auth/members'' ''POST''
            (Json (JObj [(''email'', JStr (newEmail committee)),
                         (''phone_number'',
                          if newPhone committee \<noteq> '''' then JStr (newPhone committee) else JNull)]))
            (token committee)) = Inr bob
   \<and> GET_members backend (token committee) = Inr (JArr [alice, bob])
   \<and> sent (handleAddMember backend committee)
       = sent committee @ [apiCall_request ''/auth/members'' ''POST''
                      (Json (JObj [(''email'', JStr (newEmail committee)),
                                   (''phone_number'',
                                    if newPhone committee \<noteq> '''' then JStr (newPhone committee) else JNull)]))
                      (token committee),
                    apiCall_request ''/auth/members'' ''GET'' NoBody (token committee)]
   \<and> members (handleAddMember backend committee) = JArr [alice, bob]"
proof -
  have a: "newEmail committee \<noteq> ''''"
    by (simp add: committee_def)
  have b: "snd (apiCall backend ''/auth/members'' ''POST''
            (Json (JObj [(''email'', JStr (newEmail committee)),
                         (''phone_number'',
                          if newPhone committee \<noteq> '''' then JStr (newPhone committee) else JNull)]))
            (token committee)) = Inr bob"
    by (simp add: committee_def apiCall_def Let_def backend_def apiCall_request_def API_BASE_URL_def
        apiCall_response_def ok_def)
  have c: "GET_members backend (token committee) = Inr (JArr [alice, bob])"
    by (simp add: GET_members_def committee_def apiCall_def Let_def backend_def apiCall_request_def
        API_BASE_URL_def apiCall_response_def ok_def)
  show ?thesis
    using members_only_refetched [of committee backend bob "JArr [alice, bob]"] a b c
    by blast
qed

section \<open>Notification banner\<close>

text \<open>
  Claim C8, as stated, says that in every handler the banner text is the thrown error's
  message. When the \<^verbatim>\<open>POST\<close> of an add is rejected with \<^verbatim>\<open>Failed to fetch\<close>, the banner
  reads \<^verbatim>\<open>Failed to add member: Failed to fetch\<close>.
\<close>

theorem banner_prefix_counterexample:
  "snd (apiCall net_down ''/auth/members'' ''POST''
          (Json (JObj [(''email'', JStr ''carol@example.com''), (''phone_number'', JNull)]))
          (JStr ''tok123'')) = Inl (TypeError ''Failed to fetch'')
   \<and> message (handleAddMember net_down committee)
       = \<lparr> msg_type = ''error'', msg_text = ''Failed to add member: Failed to fetch'' \<rparr>
   \<and> msg_text (message (handleAddMember net_down committee))
       \<noteq> error_message (TypeError ''Failed to fetch'')"
  by (simp add: committee_def handleAddMember_def apiCall_def Let_def net_down_def error_msg_def)

text \<open>
  Claim C8, amended. When the API call of a handler throws, the banner becomes an error
  whose text carries the thrown message: the message itself in the OTP request, the OTP
  verification and the bill upload; the message after a fixed prefix when loading the
  member list, adding and removing a member; the message between a fixed prefix and
  suffix in the Telegram registration. The token check at startup leaves the banner as
  it was, whether it runs or the first render throws. A banner with non-empty text arms a timeout of 5000 ms that resets type and
  text to empty, so the message is on display before that delay and empty from it on.
\<close>

theorem banner_on_throw:
  "(email l \<noteq> ''''
      \<and> snd (apiCall net ''/auth/otp/request'' ''POST'' (Json (JObj [(''email'', JStr (email l))])) JNull)
          = Inl e \<longrightarrow>
      message (handleRequestOtp net l) = error_msg (error_message e))
   \<and> (length (otp l) = 6
      \<and> snd (apiCall net ''/auth/otp/verify'' ''POST''
               (Json (JObj [(''email'', JStr (email l)), (''otp'', JStr (otp l))])) JNull) = Inl e \<longrightarrow>
      message (handleVerifyOtp net l) = error_msg (error_message e))
   \<and> (selectedFile d = Some f
      \<and> snd (apiCall net ''/bill/generate'' ''POST'' (FormData [(''file'', f)]) (token d)) = Inl e \<longrightarrow>
      message (handleGenerateBills net d) = error_msg (error_message e))
   \<and> (GET_members net (token s) = Inl e \<longrightarrow>
      message (fetchMembers net s)
        = error_msg (''Failed to load committee members: '' @ error_message e))
   \<and> (newEmail s \<noteq> ''''
      \<and> snd (apiCall net ''/auth/members'' ''POST''
               (Json (JObj [(''email'', JStr (newEmail s)),
                            (''phone_number'',
                             if newPhone s \<noteq> '''' then JStr (newPhone s) else JNull)]))
               (token s)) = Inl e \<longrightarrow>
      message (handleAddMember net s) = error_msg (''Failed to add member: '' @ error_message e))
   \<and> (snd (apiCall net (''/auth/members/'' @ ToString memberId) ''DELETE'' NoBody (token s)) = Inl e \<longrightarrow>
      message (removeMember_request net memberId memberEmail' s)
        = error_msg (''Failed to remove member: '' @ error_message e))
   \<and> (flatNo g \<noteq> '''' \<and> chatId g \<noteq> ''''
      \<and> snd (apiCall net ''/bill/telegram/register'' ''POST''
               (Json (JObj [(''flat_no'', JStr (flatNo g)), (''telegram_chat_id'', JStr (chatId g))]))
               JNull) = Inl e \<longrightarrow>
      message (handleRegister net g)
        = error_msg (''Registration failed: '' @ error_message e @ ''. Ensure your Flat No is correct.''))
   \<and> message (defaultPage (checkToken net (App_init stored))) = message (App_init stored)
   \<and> message (tree_state (App_start net stored)) = message (App_init stored)
   \<and> (msg_text m \<noteq> '''' \<longrightarrow>
        Notification_timeout m = Some (5000, \<lparr> msg_type = '''', msg_text = '''' \<rparr>)
        \<and> (k < 5000 \<longrightarrow> banner_after k m = m)
        \<and> (5000 \<le> k \<longrightarrow> banner_after k m = \<lparr> msg_type = '''', msg_text = '''' \<rparr>))"
proof -
  have request: "email l \<noteq> ''''
      \<and> snd (apiCall net ''/auth/otp/request'' ''POST'' (Json (JObj [(''email'', JStr (email l))])) JNull)
          = Inl e \<longrightarrow>
      message (handleRequestOtp net l) = error_msg (error_message e)"
    by (auto simp: handleRequestOtp_def Let_def split: prod.splits sum.splits)
  have verify: "length (otp l) = 6
      \<and> snd (apiCall net ''/auth/otp/verify'' ''POST''
               (Json (JObj [(''email'', JStr (email l)), (''otp'', JStr (otp l))])) JNull) = Inl e \<longrightarrow>
      message (handleVerifyOtp net l) = error_msg (error_message e)"
    using handleVerifyOtp_thrown [of l net e] by blast
  have upload: "selectedFile d = Some f
      \<and> snd (apiCall net ''/bill/generate'' ''POST'' (FormData [(''file'', f)]) (token d)) = Inl e \<longrightarrow>
      message (handleGenerateBills net d) = error_msg (error_message e)"
    by (auto simp: handleGenerateBills_def Let_def split: prod.splits sum.splits)
  have load: "GET_members net (token s) = Inl e \<longrightarrow>
      message (fetchMembers net s)
        = error_msg (''Failed to load committee members: '' @ error_message e)"
    using fetchMembers_thrown [of net s e] by blast
  have add: "newEmail s \<noteq> ''''
      \<and> snd (apiCall net ''/auth/members'' ''POST''
               (Json (JObj [(''email'', JStr (newEmail s)),
                            (''phone_number'',
                             if newPhone s \<noteq> '''' then JStr (newPhone s) else JNull)]))
               (token s)) = Inl e \<longrightarrow>
      message (handleAddMember net s) = error_msg (''Failed to add member: '' @ error_message e)"
  proof (intro impI, elim conjE)
    assume ne: "newEmail s \<noteq> ''''"
      and res: "snd (apiCall net ''/auth/members'' ''POST''
               (Json (JObj [(''email'', JStr (newEmail s)),
                            (''phone_number'',
                             if newPhone s \<noteq> '''' then JStr (newPhone s) else JNull)]))
               (token s)) = Inl e"
    from handleAddMember_thrown [OF ne res]
    show "message (handleAddMember net s) = error_msg (''Failed to add member: '' @ error_message e)"
      by simp
  qed
  have remove: "snd (apiCall net (''/auth/members/'' @ ToString memberId) ''DELETE'' NoBody (token s)) = Inl e \<longrightarrow>
      message (removeMember_request net memberId memberEmail' s)
        = error_msg (''Failed to remove member: '' @ error_message e)"
  proof
    assume res: "snd (apiCall net (''/auth/members/'' @ ToString memberId) ''DELETE'' NoBody (token s)) = Inl e"
    from removeMember_request_thrown [OF res]
    show "message (removeMember_request net memberId memberEmail' s)
        = error_msg (''Failed to remove member: '' @ error_message e)"
      by simp
  qed
  have register: "flatNo g \<noteq> '''' \<and> chatId g \<noteq> ''''
      \<and> snd (apiCall net ''/bill/telegram/register'' ''POST''
               (Json (JObj [(''flat_no'', JStr (flatNo g)), (''telegram_chat_id'', JStr (chatId g))]))
               JNull) = Inl e \<longrightarrow>
      message (handleRegister net g)
        = error_msg (''Registration failed: '' @ error_message e @ ''. Ensure your Flat No is correct.'')"
    by (auto simp: handleRegister_def Let_def split: prod.splits sum.splits)
  have effect: "message (defaultPage (checkToken net (App_init stored))) = message (App_init stored)"
    by (auto simp: defaultPage_frame checkToken_def Let_def split: option.splits prod.splits sum.splits)
  have startup: "message (tree_state (App_start net stored)) = message (App_init stored)"
    using effect
    by (auto simp: App_start_def App_commit_def defaultPage_frame split: sum.splits)
  have timer: "msg_text m \<noteq> '''' \<longrightarrow>
        Notification_timeout m = Some (5000, \<lparr> msg_type = '''', msg_text = '''' \<rparr>)
        \<and> (k < 5000 \<longrightarrow> banner_after k m = m)
        \<and> (5000 \<le> k \<longrightarrow> banner_after k m = \<lparr> msg_type = '''', msg_text = '''' \<rparr>)"
    by (simp add: Notification_timeout_def banner_after_def)
  from request verify upload load add remove register effect startup timer show ?thesis
    by (intro conjI)
qed

theorem banner_on_throw_witness:
  "newEmail committee \<noteq> ''''
   \<and> snd (apiCall net_down ''/auth/members'' ''POST''
            (Json (JObj [(''email'', JStr (newEmail committee)),
                         (''phone_number'',
                          if newPhone committee \<noteq> '''' then JStr (newPhone committee) else JNull)]))
            (token committee)) = Inl (TypeError ''Failed to fetch'')
   \<and> message (handleAddMember net_down committee)
       = error_msg (''Failed to add member: '' @ error_message (TypeError ''Failed to fetch''))
   \<and> GET_members net_down (token committee) = Inl (TypeError ''Failed to fetch'')
   \<and> message (fetchMembers net_down committee)
       = error_msg (''Failed to load committee members: '' @ error_message (TypeError ''Failed to fetch''))
   \<and> msg_text (error_msg ''Failed to fetch'') \<noteq> ''''
   \<and> banner_after 4999 (error_msg ''Failed to fetch'') = error_msg ''Failed to fetch''
   \<and> banner_after 5000 (error_msg ''Failed to fetch'') = \<lparr> msg_type = '''', msg_text = '''' \<rparr>"
proof -
  have a: "newEmail committee \<noteq> ''''"
    by (simp add: committee_def)
  have b: "snd (apiCall net_down ''/auth/members'' ''POST''
            (Json (JObj [(''email'', JStr (newEmail committee)),
                         (''phone_number'',
                          if newPhone committee \<noteq> '''' then JStr (newPhone committee) else JNull)]))
            (token committee)) = Inl (TypeError ''Failed to fetch'')"
    by (simp add: apiCall_def Let_def net_down_def)
  have c: "GET_members net_down (token committee) = Inl (TypeError ''Failed to fetch'')"
    by (simp add: GET_members_def apiCall_def Let_def net_down_def)
  have d: "msg_text (error_msg ''Failed to fetch'') \<noteq> ''''"
    by (simp add: error_msg_def)
  have e: "(4999::nat) < 5000 \<and> (5000::nat) \<le> 5000"
    by simp
  note load = banner_on_throw [where s = committee and net = net_down
      and e = "TypeError ''Failed to fetch''",
      THEN conjunct2, THEN conjunct2, THEN conjunct2, THEN conjunct1]
  note add = banner_on_throw [where s = committee and net = net_down
      and e = "TypeError ''Failed to fetch''",
      THEN conjunct2, THEN conjunct2, THEN conjunct2, THEN conjunct2, THEN conjunct1]
  note timer1 = banner_on_throw [where m = "error_msg ''Failed to fetch''" and k = 4999,
      THEN conjunct2, THEN conjunct2, THEN conjunct2, THEN conjunct2, THEN conjunct2,
      THEN conjunct2, THEN conjunct2, THEN conjunct2, THEN conjunct2]
  note timer2 = banner_on_throw [where m = "error_msg ''Failed to fetch''" and k = 5000,
      THEN conjunct2, THEN conjunct2, THEN conjunct2, THEN conjunct2, THEN conjunct2,
      THEN conjunct2, THEN conjunct2, THEN conjunct2, THEN conjunct2]
  have f: "message (handleAddMember net_down committee)
       = error_msg (''Failed to add member: '' @ error_message (TypeError ''Failed to fetch''))"
    using add a b by blast
  have g: "message (fetchMembers net_down committee)
       = error_msg (''Failed to load committee members: '' @ error_message (TypeError ''Failed to fetch''))"
    using load c by (rule mp)
  have h: "banner_after 4999 (error_msg ''Failed to fetch'') = error_msg ''Failed to fetch''"
    using timer1 d e by blast
  have i: "banner_after 5000 (error_msg ''Failed to fetch'') = \<lparr> msg_type = '''', msg_text = '''' \<rparr>"
    using timer2 d e by blast
  from a b c d f g h i show ?thesis
    by (intro conjI)
qed

end
